theory Spec2Isabelle
  imports Main
begin

section \<open>The chatdb package of bagoup\<close>

text \<open>
  A shallow embedding of \<^verbatim>\<open>chatdb/chatdb.go\<close>: the four methods of the
  \<^verbatim>\<open>ChatDB\<close> interface, the constructor \<^verbatim>\<open>NewChatDB\<close> and the helper
  \<^verbatim>\<open>getDatetimeFormula\<close>.

  Go's \<^verbatim>\<open>int\<close> is modelled by \<open>int\<close>: the code does no arithmetic on the
  identifiers it reads, it only compares, stores and prints them. A Go \<^verbatim>\<open>string\<close> is
  a \<open>string\<close>. A method returning \<^verbatim>\<open>(T, error)\<close> returns a pair whose second
  component is \<open>None\<close> for a \<^verbatim>\<open>nil\<close> error; a \<^verbatim>\<open>nil\<close> map or slice in the
  first component is \<open>None\<close>.
\<close>

subsection \<open>Formatting of integers (\<^verbatim>\<open>%d\<close>)\<close>

definition digit_char :: "nat \<Rightarrow> char" where
  "digit_char n = ''0123456789'' ! n"

function string_of_nat :: "nat \<Rightarrow> string" where
  "string_of_nat n =
     (if n < 10 then [digit_char n] else string_of_nat (n div 10) @ [digit_char (n mod 10)])"
  by pat_completeness auto
termination
  by (relation "measure (\<lambda>n. n)") auto

declare string_of_nat.simps [simp del]

definition fmt_d :: "int \<Rightarrow> string" where
  "fmt_d i = (if i < 0 then ''-'' @ string_of_nat (nat (- i)) else string_of_nat (nat i))"

subsection \<open>Errors\<close>

text \<open>
  The errors of \<^verbatim>\<open>database/sql\<close> that reach the package: the failure of a query,
  the failure to convert a row to the destinations of \<^verbatim>\<open>Scan\<close>, a \<^verbatim>\<open>Scan\<close> with
  no \<^verbatim>\<open>Next\<close> before it, and a \<^verbatim>\<open>Scan\<close> on a cursor that \<^verbatim>\<open>Next\<close> has closed.
\<close>

datatype sql_error =
    ErrQuery string
  | ErrScan string
  | ErrScanWithoutNext
  | ErrRowsClosed

text \<open>
  The package builds its errors in two ways: \<^verbatim>\<open>errors.Wrap\<close>/\<^verbatim>\<open>errors.Wrapf\<close> put a
  message in front of a cause, and \<^verbatim>\<open>fmt.Errorf\<close> makes an error of a message alone.
\<close>

datatype error =
    Wrap sql_error string
  | Errorf string

definition errors_Wrap :: "sql_error \<Rightarrow> string \<Rightarrow> error" where
  "errors_Wrap err message = Wrap err message"

text \<open>Every \<^verbatim>\<open>Wrapf\<close> of the package has a format that ends in one \<^verbatim>\<open>%d\<close>.\<close>

definition errors_Wrapf :: "sql_error \<Rightarrow> string \<Rightarrow> int \<Rightarrow> error" where
  "errors_Wrapf err prefix n = Wrap err (prefix @ fmt_d n)"

definition githubIssueMsg :: string where
  "githubIssueMsg = ''open an issue at https://github.com/tagatac/bagoup/issues''"

subsection \<open>The store and its cursors\<close>

text \<open>
  A row of a result set, seen through the \<^verbatim>\<open>Scan\<close> the package applies to it: either
  it converts to the destinations, giving their values, or the conversion fails with a
  message.
\<close>

datatype 'a row = Decodes 'a | Undecodable string

text \<open>
  \<^verbatim>\<open>*sql.Rows\<close>, for a result set that the driver reads to its end: the rows
  \<^verbatim>\<open>Next\<close> has not reached yet, the row it last moved to, and whether it has closed
  the cursor. \<^verbatim>\<open>Next\<close> closes the cursor when it finds no further row, and a
  \<^verbatim>\<open>Scan\<close> on a closed cursor fails with \<^verbatim>\<open>sql: Rows are closed\<close>. The deferred
  \<^verbatim>\<open>Close\<close> of each method runs after its result is fixed and is left out.
\<close>

record 'a Rows =
  pending :: "'a row list"
  current :: "'a row option"
  closed :: bool

definition open_rows :: "'a row list \<Rightarrow> 'a Rows" where
  "open_rows rs = \<lparr>pending = rs, current = None, closed = False\<rparr>"

definition Next :: "'a Rows \<Rightarrow> bool \<times> 'a Rows" where
  "Next rs =
     (if closed rs then (False, rs)
      else case pending rs of
        [] \<Rightarrow> (False, rs\<lparr>current := None, closed := True\<rparr>)
      | r # rest \<Rightarrow> (True, rs\<lparr>pending := rest, current := Some r\<rparr>))"

definition Scan :: "'a Rows \<Rightarrow> sql_error + 'a" where
  "Scan rs =
     (if closed rs then Inl ErrRowsClosed
      else case current rs of
        None \<Rightarrow> Inl ErrScanWithoutNext
      | Some (Undecodable m) \<Rightarrow> Inl (ErrScan m)
      | Some (Decodes v) \<Rightarrow> Inr v)"

text \<open>
  \<^verbatim>\<open>*sql.DB\<close>, as the answers of the store to the four queries of the package. The
  \<^verbatim>\<open>%d\<close> and \<^verbatim>\<open>%s\<close> of a query text are the arguments of its answer: the join
  table is asked by chat identifier, the message table by datetime formula and message
  identifier.
\<close>

record sqlDB =
  handle_table :: "sql_error + (int \<times> string) row list"
  chat_table :: "sql_error + (int \<times> string \<times> string \<times> string) row list"
  chat_message_join_table :: "int \<Rightarrow> sql_error + int row list"
  message_table :: "string \<Rightarrow> int \<Rightarrow> sql_error + (int \<times> int \<times> string \<times> string) row list"

definition Query :: "sql_error + 'a row list \<Rightarrow> sql_error + 'a Rows" where
  "Query answer = (case answer of Inl err \<Rightarrow> Inl err | Inr rs \<Rightarrow> Inr (open_rows rs))"

subsection \<open>Contacts and versions\<close>

text \<open>
  \<^verbatim>\<open>vcard.Card\<close>, as the two things the package reads from a card: \<^verbatim>\<open>Name()\<close>,
  which is \<^verbatim>\<open>nil\<close> for a card with no name field, and
  \<^verbatim>\<open>PreferredValue(vcard.FieldFormattedName)\<close>, which is empty for a card with no
  formatted name. The cards of a contact map are not \<^verbatim>\<open>nil\<close>.
\<close>

record Name =
  FamilyName :: string
  GivenName :: string
  AdditionalName :: string
  HonorificPrefix :: string
  HonorificSuffix :: string

record Card =
  Name :: "Name option"
  PreferredFormattedName :: string

type_synonym contactMap = "string \<rightharpoonup> Card"

text \<open>
  \<^verbatim>\<open>semver.Version\<close>: the three segments and the pre-release tag. \<^verbatim>\<open>Compare\<close>
  asks the library's \<^verbatim>\<open>comparePrerelease\<close> only when both versions have a tag; it is
  a parameter here.
\<close>

record Version =
  major :: int
  minor :: int
  patch :: int
  pre :: string

definition compareSegment :: "int \<Rightarrow> int \<Rightarrow> int" where
  "compareSegment v o' = (if v < o' then - 1 else if v > o' then 1 else 0)"

definition Compare :: "(string \<Rightarrow> string \<Rightarrow> int) \<Rightarrow> Version \<Rightarrow> Version \<Rightarrow> int" where
  "Compare comparePrerelease v o' =
     (if compareSegment (major v) (major o') \<noteq> 0 then compareSegment (major v) (major o')
      else if compareSegment (minor v) (minor o') \<noteq> 0 then compareSegment (minor v) (minor o')
      else if compareSegment (patch v) (patch o') \<noteq> 0 then compareSegment (patch v) (patch o')
      else if pre v = '''' \<and> pre o' = '''' then 0
      else if pre v = '''' then 1
      else if pre o' = '''' then - 1
      else comparePrerelease (pre v) (pre o'))"

definition LessThan :: "(string \<Rightarrow> string \<Rightarrow> int) \<Rightarrow> Version \<Rightarrow> Version \<Rightarrow> bool" where
  "LessThan comparePrerelease v o' = (Compare comparePrerelease v o' < 0)"

subsection \<open>Constants and the constructor\<close>

definition datetimeFormulaLegacy :: string where
  "datetimeFormulaLegacy =
     ''date + STRFTIME('%s', '2001-01-01 00:00:00'), 'unixepoch', 'localtime'' @ [CHR 0x27]"

definition datetimeFormula_modern :: string where
  "datetimeFormula_modern =
     ''(date/1000000000) + STRFTIME('%s', '2001-01-01 00:00:00'), 'unixepoch', 'localtime''
       @ [CHR 0x27]"

definition modernVersion :: Version where
  "modernVersion = \<lparr>major = 10, minor = 13, patch = 0, pre = ''''\<rparr>"

record Chat =
  ID :: int
  GUID :: string
  DisplayName :: string

record chatDB =
  DB :: sqlDB
  datetimeFormula :: string
  selfHandle :: string

definition NewChatDB :: "sqlDB \<Rightarrow> string \<Rightarrow> chatDB" where
  "NewChatDB db selfHandle' = \<lparr>DB = db, datetimeFormula = '''', selfHandle = selfHandle'\<rparr>"

subsection \<open>getDatetimeFormula\<close>

definition getDatetimeFormula ::
  "(string \<Rightarrow> string \<Rightarrow> int) \<Rightarrow> chatDB \<Rightarrow> Version option \<Rightarrow> string" where
  "getDatetimeFormula comparePrerelease d macOSVersion =
     (if datetimeFormula d \<noteq> '''' then datetimeFormula d
      else if macOSVersion \<noteq> None \<and> LessThan comparePrerelease (the macOSVersion) modernVersion
        then datetimeFormulaLegacy
      else datetimeFormula_modern)"

subsection \<open>GetHandleMap\<close>

text \<open>The body of \<^verbatim>\<open>for handles.Next() { ... }\<close>, with the map built so far.\<close>

function GetHandleMap_loop ::
  "contactMap \<Rightarrow> (int \<times> string) Rows \<Rightarrow> (int \<rightharpoonup> string)
     \<Rightarrow> (int \<rightharpoonup> string) option \<times> error option" where
  "GetHandleMap_loop contactMap handles handleMap =
     (if \<not> fst (Next handles) then (Some handleMap, None)
      else case Scan (snd (Next handles)) of
        Inl err \<Rightarrow> (None, Some (errors_Wrap err ''read handle''))
      | Inr (handleID, handle) \<Rightarrow>
          if handleMap handleID \<noteq> None then
            (None, Some (Errorf (''multiple handles with the same ID: '' @ fmt_d handleID
               @ '' - handle ID uniqueness assumption violated - '' @ githubIssueMsg)))
          else
            GetHandleMap_loop contactMap (snd (Next handles))
              (handleMap(handleID \<mapsto>
                 (case contactMap handle of
                    None \<Rightarrow> handle
                  | Some contact \<Rightarrow>
                      (case Name contact of
                         None \<Rightarrow> handle
                       | Some name \<Rightarrow>
                           if GivenName name \<noteq> '''' then GivenName name else handle)))))"
  by pat_completeness auto
termination
  by (relation "measure (\<lambda>(contactMap, handles, handleMap). length (pending handles))")
     (auto simp: Next_def split: if_splits list.splits)

declare GetHandleMap_loop.simps [simp del]

definition GetHandleMap :: "chatDB \<Rightarrow> contactMap \<Rightarrow> (int \<rightharpoonup> string) option \<times> error option" where
  "GetHandleMap d contactMap =
     (case Query (handle_table (DB d)) of
        Inl err \<Rightarrow> (None, Some (errors_Wrap err ''get handles from DB''))
      | Inr handles \<Rightarrow> GetHandleMap_loop contactMap handles Map.empty)"

subsection \<open>GetChats\<close>

function GetChats_loop ::
  "contactMap \<Rightarrow> (int \<times> string \<times> string \<times> string) Rows \<Rightarrow> Chat list
     \<Rightarrow> Chat list option \<times> error option" where
  "GetChats_loop contactMap chatRows chats =
     (if \<not> fst (Next chatRows) then (Some chats, None)
      else case Scan (snd (Next chatRows)) of
        Inl err \<Rightarrow> (None, Some (errors_Wrap err ''read chat''))
      | Inr (id', guid, name, displayName) \<Rightarrow>
          (let displayName1 = (if displayName = '''' then name else displayName);
               displayName2 =
                 (case contactMap displayName1 of
                    None \<Rightarrow> displayName1
                  | Some contact \<Rightarrow>
                      if PreferredFormattedName contact \<noteq> '''' then PreferredFormattedName contact
                      else displayName1)
           in GetChats_loop contactMap (snd (Next chatRows))
                (chats @ [\<lparr>ID = id', GUID = guid, DisplayName = displayName2\<rparr>])))"
  by pat_completeness auto
termination
  by (relation "measure (\<lambda>(contactMap, chatRows, chats). length (pending chatRows))")
     (auto simp: Next_def split: if_splits list.splits)

declare GetChats_loop.simps [simp del]

definition GetChats :: "chatDB \<Rightarrow> contactMap \<Rightarrow> Chat list option \<times> error option" where
  "GetChats d contactMap =
     (case Query (chat_table (DB d)) of
        Inl err \<Rightarrow> (None, Some (errors_Wrap err ''query chats table''))
      | Inr chatRows \<Rightarrow> GetChats_loop contactMap chatRows [])"

subsection \<open>GetMessageIDs\<close>

function GetMessageIDs_loop ::
  "int \<Rightarrow> int Rows \<Rightarrow> int list \<Rightarrow> int list option \<times> error option" where
  "GetMessageIDs_loop chatID rows messageIDs =
     (if \<not> fst (Next rows) then (Some messageIDs, None)
      else case Scan (snd (Next rows)) of
        Inl err \<Rightarrow> (None, Some (errors_Wrapf err ''read message ID for chat ID '' chatID))
      | Inr messageID \<Rightarrow> GetMessageIDs_loop chatID (snd (Next rows)) (messageIDs @ [messageID]))"
  by pat_completeness auto
termination
  by (relation "measure (\<lambda>(chatID, rows, messageIDs). length (pending rows))")
     (auto simp: Next_def split: if_splits list.splits)

declare GetMessageIDs_loop.simps [simp del]

definition GetMessageIDs :: "chatDB \<Rightarrow> int \<Rightarrow> int list option \<times> error option" where
  "GetMessageIDs d chatID =
     (case Query (chat_message_join_table (DB d) chatID) of
        Inl err \<Rightarrow>
          (None, Some (errors_Wrapf err ''query chat_message_join table for chat ID '' chatID))
      | Inr rows \<Rightarrow> GetMessageIDs_loop chatID rows [])"

subsection \<open>GetMessage\<close>

text \<open>
  The result of the first \<^verbatim>\<open>messages.Next()\<close> is dropped: \<^verbatim>\<open>Scan\<close> is called on the
  cursor whatever it was.
\<close>

definition GetMessage ::
  "(string \<Rightarrow> string \<Rightarrow> int) \<Rightarrow> chatDB \<Rightarrow> int \<Rightarrow> (int \<rightharpoonup> string) \<Rightarrow> Version option
     \<Rightarrow> string \<times> error option" where
  "GetMessage comparePrerelease d messageID handleMap macOSVersion =
     (case Query (message_table (DB d)
                    (getDatetimeFormula comparePrerelease d macOSVersion) messageID) of
        Inl err \<Rightarrow> ('''', Some (errors_Wrapf err ''query message table for ID '' messageID))
      | Inr messages0 \<Rightarrow>
          (let messages1 = snd (Next messages0) in
           case Scan messages1 of
             Inl err \<Rightarrow> ('''', Some (errors_Wrapf err ''read data for message ID '' messageID))
           | Inr (fromMe, handleID, text, date) \<Rightarrow>
               if fst (Next messages1) then
                 ('''', Some (Errorf (''multiple messages with the same ID: '' @ fmt_d messageID
                    @ '' - message ID uniqeness assumption violated - '' @ githubIssueMsg)))
               else
                 (let handle0 = (case handleMap handleID of None \<Rightarrow> '''' | Some h \<Rightarrow> h);
                      handle = (if fromMe = 1 then selfHandle d else handle0)
                  in (''['' @ date @ ''] '' @ handle @ '': '' @ text @ [CHR 0x0A], None))))"

subsection \<open>The interface\<close>

text \<open>
  One constructor for each method of \<^verbatim>\<open>ChatDB\<close>, and what a call returns.
\<close>

datatype call =
    CallGetHandleMap contactMap
  | CallGetChats contactMap
  | CallGetMessageIDs int
  | CallGetMessage int "int \<rightharpoonup> string" "Version option"

datatype response =
    HandleMap "(int \<rightharpoonup> string) option \<times> error option"
  | Chats "Chat list option \<times> error option"
  | MessageIDs "int list option \<times> error option"
  | Message "string \<times> error option"

text \<open>
  A call on a \<^verbatim>\<open>chatDB\<close>: the value it returns and the \<^verbatim>\<open>chatDB\<close> after it.
  \<^verbatim>\<open>GetHandleMap\<close>, \<^verbatim>\<open>GetChats\<close> and \<^verbatim>\<open>GetMessageIDs\<close> have value receivers and
  work on a copy; \<^verbatim>\<open>GetMessage\<close> and \<^verbatim>\<open>getDatetimeFormula\<close> have pointer receivers,
  and no statement of theirs assigns to a field. The queries are all \<^verbatim>\<open>SELECT\<close>s, so
  the store is the same after a call.
\<close>

fun exec :: "(string \<Rightarrow> string \<Rightarrow> int) \<Rightarrow> chatDB \<Rightarrow> call \<Rightarrow> response \<times> chatDB" where
  "exec cp d (CallGetHandleMap contactMap) = (HandleMap (GetHandleMap d contactMap), d)"
| "exec cp d (CallGetChats contactMap) = (Chats (GetChats d contactMap), d)"
| "exec cp d (CallGetMessageIDs chatID) = (MessageIDs (GetMessageIDs d chatID), d)"
| "exec cp d (CallGetMessage messageID handleMap macOSVersion) =
     (Message (GetMessage cp d messageID handleMap macOSVersion), d)"

fun exec_all :: "(string \<Rightarrow> string \<Rightarrow> int) \<Rightarrow> chatDB \<Rightarrow> call list \<Rightarrow> response list \<times> chatDB" where
  "exec_all cp d [] = ([], d)"
| "exec_all cp d (c # cs) =
     (let (r, d') = exec cp d c; (rs, d'') = exec_all cp d' cs in (r # rs, d''))"

subsection \<open>Notions of the specification\<close>

text \<open>
  The given name of the Contact Entry for an address, when there is an entry and its
  given name is not empty.
\<close>

definition contact_given_name :: "contactMap \<Rightarrow> string \<Rightarrow> string option" where
  "contact_given_name contactMap address =
     (case contactMap address of
        None \<Rightarrow> None
      | Some contact \<Rightarrow>
          (case Name contact of
             None \<Rightarrow> None
           | Some name \<Rightarrow> if GivenName name = '''' then None else Some (GivenName name)))"

definition resolved_handle :: "contactMap \<Rightarrow> string \<Rightarrow> string" where
  "resolved_handle contactMap address =
     (case contact_given_name contactMap address of None \<Rightarrow> address | Some given \<Rightarrow> given)"

text \<open>
  The display name of a chat: the display-name field if it is not empty, else the
  conversation identifier; and in its place the preferred formatted name of the Contact
  Entry for that name, when there is one and it is not empty.
\<close>

definition resolved_display_name :: "contactMap \<Rightarrow> string \<Rightarrow> string \<Rightarrow> string" where
  "resolved_display_name contactMap displayName identifier =
     (let resolved = (if displayName \<noteq> '''' then displayName else identifier) in
      case contactMap resolved of
        None \<Rightarrow> resolved
      | Some contact \<Rightarrow>
          if PreferredFormattedName contact \<noteq> '''' then PreferredFormattedName contact
          else resolved)"

definition chat_of_row :: "contactMap \<Rightarrow> int \<times> string \<times> string \<times> string \<Rightarrow> Chat" where
  "chat_of_row contactMap r =
     (case r of (i, guid, identifier, displayName) \<Rightarrow>
        \<lparr>ID = i, GUID = guid,
         DisplayName = resolved_display_name contactMap displayName identifier\<rparr>)"

text \<open>
  A version strictly below 10.13 in the precedence of semantic versions: a smaller
  segment at the first difference, or 10.13.0 with a pre-release tag.
\<close>

definition below_modernVersion :: "Version \<Rightarrow> bool" where
  "below_modernVersion v =
     (major v < 10 \<or> (major v = 10 \<and> (minor v < 13 \<or> (minor v = 13 \<and>
        (patch v < 0 \<or> (patch v = 0 \<and> pre v \<noteq> ''''))))))"

text \<open>The error of \<^verbatim>\<open>GetHandleMap\<close> for a handle identifier it has seen before.\<close>

definition duplicate_handle_error :: "int \<Rightarrow> error" where
  "duplicate_handle_error i =
     Errorf (''multiple handles with the same ID: '' @ fmt_d i
       @ '' - handle ID uniqueness assumption violated - '' @ githubIssueMsg)"

subsection \<open>An example store\<close>

definition example_contacts :: contactMap where
  "example_contacts =
     [''+15551234567'' \<mapsto>
        \<lparr>Name = Some \<lparr>FamilyName = ''Smith'', GivenName = ''Alice'', AdditionalName = '''',
                       HonorificPrefix = '''', HonorificSuffix = ''''\<rparr>,
         PreferredFormattedName = ''Alice Smith''\<rparr>,
      ''carol@example.com'' \<mapsto>
        \<lparr>Name = Some \<lparr>FamilyName = ''Jones'', GivenName = '''', AdditionalName = '''',
                       HonorificPrefix = '''', HonorificSuffix = ''''\<rparr>,
         PreferredFormattedName = ''''\<rparr>,
      ''Family'' \<mapsto> \<lparr>Name = None, PreferredFormattedName = ''The Smiths''\<rparr>]"

definition example_handles :: "(int \<times> string) list" where
  "example_handles = [(1, ''+15551234567''), (2, ''bob@example.com''), (5, ''carol@example.com'')]"

definition example_chats :: "(int \<times> string \<times> string \<times> string) list" where
  "example_chats =
     [(1, ''guid1'', ''chat123'', ''''),
      (2, ''guid2'', ''chat456'', ''Family''),
      (3, ''guid3'', ''carol@example.com'', ''''),
      (4, ''guid4'', ''Family'', '''')]"

definition example_db :: sqlDB where
  "example_db =
     \<lparr>handle_table = Inr (map Decodes example_handles),
      chat_table = Inr (map Decodes example_chats),
      chat_message_join_table =
        (\<lambda>chatID. if chatID = 1 then Inr (map Decodes [30, 10, 20]) else Inr []),
      message_table = (\<lambda>formula messageID.
         if messageID = 10 then Inr [Decodes (0, 1, ''hello'', ''2020-01-01 10:00:00'')]
         else if messageID = 20 then Inr [Decodes (1, 1, ''hi'', ''2020-01-01 10:01:00'')]
         else if messageID = 30 then Inr [Decodes (0, 7, ''who?'', ''2020-01-01 09:00:00'')]
         else if messageID = 42 then
           Inr [Decodes (0, 1, ''a'', ''2020-01-02 00:00:00''),
                Undecodable ''converting NULL to int is unsupported'']
         else if messageID = 43 then Inr [Undecodable ''converting NULL to int is unsupported'']
         else Inr [])\<rparr>"

definition example_chatDB :: chatDB where
  "example_chatDB = NewChatDB example_db ''Me''"

text \<open>The handle rows of the example and a further row that repeats the identifier 1.\<close>

definition duplicate_handles :: "(int \<times> string) list" where
  "duplicate_handles = example_handles @ [(1, ''dave@example.com'')]"

text \<open>The same store with a message table that has no row for any identifier.\<close>

definition no_messages_chatDB :: chatDB where
  "no_messages_chatDB =
     NewChatDB (example_db\<lparr>message_table := (\<lambda>formula messageID. Inr [])\<rparr>) ''Myself''"

text \<open>
  The same store with handle rows of which the first and the third have the identifier
  1 and the second, between them, does not decode.
\<close>

definition undecodable_handle_rows :: "(int \<times> string) row list" where
  "undecodable_handle_rows =
     [Decodes (1, ''+15551234567''),
      Undecodable ''converting NULL to string is unsupported'',
      Decodes (1, ''dave@example.com'')]"

definition undecodable_handle_chatDB :: chatDB where
  "undecodable_handle_chatDB =
     NewChatDB (example_db\<lparr>handle_table := Inr undecodable_handle_rows\<rparr>) ''Me''"

text \<open>
  The same store with the repeated identifier of \<open>duplicate_handles\<close> and, after it,
  a row that does not decode.
\<close>

definition duplicate_then_undecodable_chatDB :: chatDB where
  "duplicate_then_undecodable_chatDB =
     NewChatDB
       (example_db\<lparr>handle_table :=
          Inr (map Decodes duplicate_handles
                 @ [Undecodable ''converting NULL to string is unsupported''])\<rparr>) ''Me''"

text \<open>
  The same store with two rows for every message identifier, of which the first has a
  \<^verbatim>\<open>NULL\<close> handle identifier and does not decode.
\<close>

definition undecodable_first_rows :: "(int \<times> int \<times> string \<times> string) row list" where
  "undecodable_first_rows =
     [Undecodable ''converting NULL to int is unsupported'',
      Decodes (0, 1, ''b'', ''2020-01-02 00:00:00'')]"

definition undecodable_first_chatDB :: chatDB where
  "undecodable_first_chatDB =
     NewChatDB (example_db\<lparr>message_table := (\<lambda>formula messageID. Inr undecodable_first_rows)\<rparr>)
       ''Me''"

definition no_prerelease :: "string \<Rightarrow> string \<Rightarrow> int" where
  "no_prerelease s t = 0"

definition version :: "int \<Rightarrow> int \<Rightarrow> int \<Rightarrow> Version" where
  "version a b c = \<lparr>major = a, minor = b, patch = c, pre = ''''\<rparr>"

section \<open>Properties\<close>

subsection \<open>Cursors\<close>

lemma Next_Nil:
  "\<not> closed rs \<Longrightarrow> pending rs = [] \<Longrightarrow> Next rs = (False, rs\<lparr>current := None, closed := True\<rparr>)"
  by (simp add: Next_def)

lemma Next_Cons:
  "\<not> closed rs \<Longrightarrow> pending rs = r # rest \<Longrightarrow>
   Next rs = (True, rs\<lparr>pending := rest, current := Some r\<rparr>)"
  by (simp add: Next_def)

lemma Scan_Decodes: "\<not> closed rs \<Longrightarrow> current rs = Some (Decodes v) \<Longrightarrow> Scan rs = Inr v"
  by (simp add: Scan_def)

lemma Scan_Undecodable:
  "\<not> closed rs \<Longrightarrow> current rs = Some (Undecodable m) \<Longrightarrow> Scan rs = Inl (ErrScan m)"
  by (simp add: Scan_def)

lemma Scan_closed: "closed rs \<Longrightarrow> Scan rs = Inl ErrRowsClosed"
  by (simp add: Scan_def)

subsection \<open>Printing of identifiers\<close>

lemma fmt_d_examples: "fmt_d 0 = ''0'' \<and> fmt_d 42 = ''42'' \<and> fmt_d (- 1205) = ''-1205''"
  by (simp add: fmt_d_def string_of_nat.simps digit_char_def)

text \<open>Two identifiers are printed alike only when they are the same.\<close>

lemma digit_range: "(n::nat) < 10 \<Longrightarrow> n \<in> {0, 1, 2, 3, 4, 5, 6, 7, 8, 9}"
  by (simp, arith)

lemma digit_char_inj: "a < 10 \<Longrightarrow> b < 10 \<Longrightarrow> digit_char a = digit_char b \<Longrightarrow> a = b"
proof -
  assume a: "a < 10" and b: "b < 10" and eq: "digit_char a = digit_char b"
  from digit_range [OF a] digit_range [OF b] eq show ?thesis
    by (elim insertE emptyE) (simp_all add: digit_char_def)
qed

lemma digit_char_not_minus: "n < 10 \<Longrightarrow> digit_char n \<noteq> CHR ''-''"
  using digit_range [of n] by (auto simp: digit_char_def)

lemma string_of_nat_nonempty: "string_of_nat n \<noteq> []"
  by (subst string_of_nat.simps) simp

lemma string_of_nat_digits: "c \<in> set (string_of_nat n) \<Longrightarrow> c \<noteq> CHR ''-''"
proof (induction n rule: string_of_nat.induct)
  case (1 n)
  show ?case
  proof (cases "n < 10")
    case True
    with "1.prems" show ?thesis
      by (simp add: string_of_nat.simps [of n] digit_char_not_minus)
  next
    case False
    have "n mod 10 < 10" by simp
    then have "digit_char (n mod 10) \<noteq> CHR ''-''" by (rule digit_char_not_minus)
    with False "1.prems" "1.IH" show ?thesis
      by (auto simp: string_of_nat.simps [of n])
  qed
qed

lemma string_of_nat_inj: "string_of_nat n = string_of_nat m \<Longrightarrow> n = m"
proof (induction n arbitrary: m rule: string_of_nat.induct)
  case (1 n)
  show ?case
  proof (cases "n < 10")
    case True
    show ?thesis
    proof (cases "m < 10")
      case mt: True
      with True "1.prems" show ?thesis
        by (simp add: string_of_nat.simps [of n] string_of_nat.simps [of m] digit_char_inj)
    next
      case False
      with True "1.prems" show ?thesis
        by (simp add: string_of_nat.simps [of n] string_of_nat.simps [of m]
              string_of_nat_nonempty Cons_eq_append_conv)
    qed
  next
    case False
    show ?thesis
    proof (cases "m < 10")
      case True
      with False "1.prems" show ?thesis
        by (simp add: string_of_nat.simps [of n] string_of_nat.simps [of m]
              string_of_nat_nonempty append_eq_Cons_conv)
    next
      case mf: False
      from False mf "1.prems"
      have eq: "string_of_nat (n div 10) = string_of_nat (m div 10)"
        and d: "digit_char (n mod 10) = digit_char (m mod 10)"
        by (simp_all add: string_of_nat.simps [of n] string_of_nat.simps [of m])
      from "1.IH" [OF False eq] have "n div 10 = m div 10" .
      moreover from d have "n mod 10 = m mod 10" by (simp add: digit_char_inj)
      ultimately show ?thesis by (metis div_mult_mod_eq)
    qed
  qed
qed

lemma fmt_d_inj: "fmt_d i = fmt_d j \<Longrightarrow> i = j"
proof -
  assume eq: "fmt_d i = fmt_d j"
  have neg: "string_of_nat a \<noteq> CHR ''-'' # string_of_nat b" for a b
  proof
    assume "string_of_nat a = CHR ''-'' # string_of_nat b"
    then have "CHR ''-'' \<in> set (string_of_nat a)" by simp
    then show False using string_of_nat_digits by blast
  qed
  show ?thesis
  proof (cases "i < 0"; cases "j < 0")
    assume "i < 0" "j < 0"
    with eq have "nat (- i) = nat (- j)" by (simp add: fmt_d_def string_of_nat_inj)
    with \<open>i < 0\<close> \<open>j < 0\<close> show ?thesis by simp
  next
    assume "i < 0" "\<not> j < 0"
    with eq neg show ?thesis by (simp add: fmt_d_def) metis
  next
    assume "\<not> i < 0" "j < 0"
    with eq neg show ?thesis by (simp add: fmt_d_def)
  next
    assume "\<not> i < 0" "\<not> j < 0"
    with eq have "nat i = nat j" by (simp add: fmt_d_def string_of_nat_inj)
    with \<open>\<not> i < 0\<close> \<open>\<not> j < 0\<close> show ?thesis by simp
  qed
qed

subsection \<open>The datetime formula\<close>

text \<open>
  \<^verbatim>\<open>_modernVersion\<close> has no pre-release tag, so the comparison with it never asks
  \<^verbatim>\<open>comparePrerelease\<close>.
\<close>

lemma LessThan_modernVersion: "LessThan cp v modernVersion = below_modernVersion v"
  by (auto simp: LessThan_def Compare_def compareSegment_def modernVersion_def
        below_modernVersion_def)

text \<open>
  Claim C2. \<^verbatim>\<open>getDatetimeFormula\<close> returns the override formula of the \<^verbatim>\<open>chatDB\<close>
  when it is set (not empty); otherwise the legacy formula when a version is given and
  it is strictly below 10.13; otherwise, for a version at or above 10.13 and for no
  version, the modern formula.
\<close>

theorem getDatetimeFormula_selection:
  "getDatetimeFormula cp d macOSVersion =
     (if datetimeFormula d \<noteq> '''' then datetimeFormula d
      else case macOSVersion of
        Some v \<Rightarrow> if below_modernVersion v then datetimeFormulaLegacy else datetimeFormula_modern
      | None \<Rightarrow> datetimeFormula_modern)"
proof (cases macOSVersion)
  case None
  then show ?thesis by (simp add: getDatetimeFormula_def)
next
  case (Some v)
  then show ?thesis by (simp add: getDatetimeFormula_def LessThan_modernVersion)
qed

theorem getDatetimeFormula_selection_witness:
  "getDatetimeFormula no_prerelease example_chatDB (Some (version 10 12 0)) = datetimeFormulaLegacy \<and>
   getDatetimeFormula no_prerelease example_chatDB (Some (version 10 13 0)) = datetimeFormula_modern \<and>
   getDatetimeFormula no_prerelease example_chatDB (Some (version 10 14 0)) = datetimeFormula_modern \<and>
   getDatetimeFormula no_prerelease example_chatDB None = datetimeFormula_modern \<and>
   getDatetimeFormula no_prerelease example_chatDB (Some ((version 10 13 0)\<lparr>pre := ''beta''\<rparr>))
     = datetimeFormulaLegacy \<and>
   getDatetimeFormula no_prerelease (example_chatDB\<lparr>datetimeFormula := ''date''\<rparr>)
     (Some (version 10 12 0)) = ''date'' \<and>
   getDatetimeFormula no_prerelease (example_chatDB\<lparr>datetimeFormula := ''date''\<rparr>) None = ''date''"
  using getDatetimeFormula_selection [of no_prerelease example_chatDB "Some (version 10 12 0)"]
    getDatetimeFormula_selection [of no_prerelease example_chatDB "Some (version 10 13 0)"]
    getDatetimeFormula_selection [of no_prerelease example_chatDB "Some (version 10 14 0)"]
    getDatetimeFormula_selection [of no_prerelease example_chatDB None]
    getDatetimeFormula_selection [of no_prerelease example_chatDB
      "Some ((version 10 13 0)\<lparr>pre := ''beta''\<rparr>)"]
    getDatetimeFormula_selection [of no_prerelease "example_chatDB\<lparr>datetimeFormula := ''date''\<rparr>"
      "Some (version 10 12 0)"]
    getDatetimeFormula_selection [of no_prerelease "example_chatDB\<lparr>datetimeFormula := ''date''\<rparr>" None]
  by (simp add: example_chatDB_def NewChatDB_def version_def below_modernVersion_def)

subsection \<open>GetHandleMap\<close>

lemma GetHandleMap_loop_Nil:
  "\<not> closed rs \<Longrightarrow> pending rs = [] \<Longrightarrow> GetHandleMap_loop cm rs hm = (Some hm, None)"
  by (subst GetHandleMap_loop.simps) (simp add: Next_Nil)

lemma GetHandleMap_loop_Undecodable:
  "\<not> closed rs \<Longrightarrow> pending rs = Undecodable s # rest \<Longrightarrow>
   GetHandleMap_loop cm rs hm = (None, Some (Wrap (ErrScan s) ''read handle''))"
  by (subst GetHandleMap_loop.simps) (simp add: Next_Cons Scan_Undecodable errors_Wrap_def)

lemma GetHandleMap_loop_Decodes:
  "\<not> closed rs \<Longrightarrow> pending rs = Decodes (i, a) # rest \<Longrightarrow>
   GetHandleMap_loop cm rs hm =
     (if hm i \<noteq> None then (None, Some (duplicate_handle_error i))
      else GetHandleMap_loop cm (rs\<lparr>pending := rest, current := Some (Decodes (i, a))\<rparr>)
             (hm(i \<mapsto> resolved_handle cm a)))"
  by (subst GetHandleMap_loop.simps)
     (simp add: Next_Cons Scan_Decodes duplicate_handle_error_def
        resolved_handle_def contact_given_name_def split: option.splits)

text \<open>
  Rows with distinct identifiers, none of them in the map yet: the loop adds one entry
  for each row.
\<close>

lemma GetHandleMap_loop_distinct:
  "\<not> closed rs \<Longrightarrow> pending rs = map Decodes xs \<Longrightarrow> distinct (map fst xs) \<Longrightarrow>
   fst ` set xs \<inter> dom hm = {} \<Longrightarrow>
   GetHandleMap_loop cm rs hm =
     (Some (hm ++ map_of (map (\<lambda>(i, a). (i, resolved_handle cm a)) xs)), None)"
proof (induction xs arbitrary: rs hm)
  case Nil
  then show ?case by (simp add: GetHandleMap_loop_Nil)
next
  case (Cons x xs)
  obtain i a where x: "x = (i, a)" by (cases x)
  let ?rs = "rs\<lparr>pending := map Decodes xs, current := Some (Decodes (i, a))\<rparr>"
  let ?hm = "hm(i \<mapsto> resolved_handle cm a)"
  have fresh: "hm i = None" using Cons.prems(4) x by auto
  have notin: "i \<notin> fst ` set xs" using Cons.prems(3) x by auto
  have step: "GetHandleMap_loop cm rs hm = GetHandleMap_loop cm ?rs ?hm"
    using Cons.prems(1,2) x fresh by (simp add: GetHandleMap_loop_Decodes)
  have rest: "GetHandleMap_loop cm ?rs ?hm =
      (Some (?hm ++ map_of (map (\<lambda>(i, a). (i, resolved_handle cm a)) xs)), None)"
  proof (rule Cons.IH)
    show "\<not> closed ?rs" using Cons.prems(1) by simp
    show "pending ?rs = map Decodes xs" by simp
    show "distinct (map fst xs)" using Cons.prems(3) by simp
    have "fst ` set xs \<inter> dom hm = {}" using Cons.prems(4) by auto
    then show "fst ` set xs \<inter> dom ?hm = {}" using notin by simp
  qed
  have maps: "?hm ++ map_of (map (\<lambda>(i, a). (i, resolved_handle cm a)) xs)
      = hm ++ map_of (map (\<lambda>(i, a). (i, resolved_handle cm a)) (x # xs))"
  proof -
    have "i \<notin> dom (map_of (map (\<lambda>(i, a). (i, resolved_handle cm a)) xs))"
      using notin by (auto simp: dom_map_of_conv_image_fst image_iff split: prod.splits)
    then show ?thesis by (simp add: x map_add_upd_left)
  qed
  show ?case by (simp only: step rest maps)
qed

text \<open>
  The identifiers read before a row are \<open>seen\<close> and the entries of the map; the first
  row whose identifier is among them ends the loop with the error that prints it.
\<close>

lemma GetHandleMap_loop_duplicate:
  "\<not> closed rs \<Longrightarrow> pending rs = map Decodes xs @ rest \<Longrightarrow> map fst xs = seen @ i # later \<Longrightarrow>
   distinct seen \<Longrightarrow> set seen \<inter> dom hm = {} \<Longrightarrow> i \<in> set seen \<union> dom hm \<Longrightarrow>
   GetHandleMap_loop cm rs hm = (None, Some (duplicate_handle_error i))"
proof (induction seen arbitrary: xs rs hm)
  case Nil
  then obtain a xs' where xs: "xs = (i, a) # xs'" by (cases xs) auto
  have "hm i \<noteq> None" using Nil.prems(6) by auto
  then show ?case using Nil.prems(1,2) xs by (simp add: GetHandleMap_loop_Decodes)
next
  case (Cons p seen)
  then obtain a xs' where xs: "xs = (p, a) # xs'" and xs': "map fst xs' = seen @ i # later"
    by (cases xs) auto
  let ?rs = "rs\<lparr>pending := map Decodes xs' @ rest, current := Some (Decodes (p, a))\<rparr>"
  let ?hm = "hm(p \<mapsto> resolved_handle cm a)"
  have fresh: "hm p = None" using Cons.prems(5) by auto
  have step: "GetHandleMap_loop cm rs hm = GetHandleMap_loop cm ?rs ?hm"
    using Cons.prems(1,2) xs fresh by (simp add: GetHandleMap_loop_Decodes)
  have "GetHandleMap_loop cm ?rs ?hm = (None, Some (duplicate_handle_error i))"
  proof (rule Cons.IH)
    show "\<not> closed ?rs" using Cons.prems(1) by simp
    show "pending ?rs = map Decodes xs' @ rest" by simp
    show "map fst xs' = seen @ i # later" by (rule xs')
    show "distinct seen" using Cons.prems(4) by simp
    have "p \<notin> set seen" using Cons.prems(4) by simp
    moreover have "set seen \<inter> dom hm = {}" using Cons.prems(5) by auto
    ultimately show "set seen \<inter> dom ?hm = {}" by simp
    show "i \<in> set seen \<union> dom ?hm" using Cons.prems(6) by auto
  qed
  then show ?case by (simp only: step)
qed

text \<open>
  Rows with distinct identifiers, none of them in the map yet, and then a row that does
  not decode: the loop ends with the read error of that row.
\<close>

lemma GetHandleMap_loop_read_error:
  "\<not> closed rs \<Longrightarrow> pending rs = map Decodes xs @ Undecodable m # rest \<Longrightarrow>
   distinct (map fst xs) \<Longrightarrow> fst ` set xs \<inter> dom hm = {} \<Longrightarrow>
   GetHandleMap_loop cm rs hm = (None, Some (Wrap (ErrScan m) ''read handle''))"
proof (induction xs arbitrary: rs hm)
  case Nil
  then show ?case by (simp add: GetHandleMap_loop_Undecodable)
next
  case (Cons x xs)
  obtain i a where x: "x = (i, a)" by (cases x)
  let ?rs = "rs\<lparr>pending := map Decodes xs @ Undecodable m # rest,
                 current := Some (Decodes (i, a))\<rparr>"
  let ?hm = "hm(i \<mapsto> resolved_handle cm a)"
  have fresh: "hm i = None" using Cons.prems(4) x by auto
  have notin: "i \<notin> fst ` set xs" using Cons.prems(3) x by auto
  have step: "GetHandleMap_loop cm rs hm = GetHandleMap_loop cm ?rs ?hm"
    using Cons.prems(1,2) x fresh by (simp add: GetHandleMap_loop_Decodes)
  have "GetHandleMap_loop cm ?rs ?hm = (None, Some (Wrap (ErrScan m) ''read handle''))"
  proof (rule Cons.IH)
    show "\<not> closed ?rs" using Cons.prems(1) by simp
    show "pending ?rs = map Decodes xs @ Undecodable m # rest" by simp
    show "distinct (map fst xs)" using Cons.prems(3) by simp
    have "fst ` set xs \<inter> dom hm = {}" using Cons.prems(4) by auto
    then show "fst ` set xs \<inter> dom ?hm = {}" using notin by simp
  qed
  then show ?case by (simp only: step)
qed

lemma GetHandleMap_rows:
  "handle_table (DB d) = Inr rows \<Longrightarrow>
   GetHandleMap d cm = GetHandleMap_loop cm (open_rows rows) Map.empty"
  by (simp add: GetHandleMap_def Query_def)

lemma GetHandleMap_distinct:
  assumes "handle_table (DB d) = Inr (map Decodes rows)" and "distinct (map fst rows)"
  shows "GetHandleMap d cm =
           (Some (map_of (map (\<lambda>(i, a). (i, resolved_handle cm a)) rows)), None)"
proof -
  let ?m = "map_of (map (\<lambda>(i, a). (i, resolved_handle cm a)) rows)"
  have "GetHandleMap_loop cm (open_rows (map Decodes rows)) Map.empty
      = (Some (Map.empty ++ ?m), None)"
    by (rule GetHandleMap_loop_distinct) (use assms(2) in \<open>simp_all add: open_rows_def\<close>)
  then show ?thesis using assms(1) by (simp add: GetHandleMap_rows)
qed

text \<open>
  Claim C3, as the code has it. \<^verbatim>\<open>GetHandleMap\<close> reads a row before it looks for its
  identifier in the map. When the handle query gives rows of which two have the same
  identifier, and the rows decode up to the first row that repeats an earlier identifier,
  it returns a \<^verbatim>\<open>nil\<close> map and the error that names that identifier; the rows after
  it are not read. When a row does not decode before any identifier has repeated, it
  returns a \<^verbatim>\<open>nil\<close> map and the read error of that row. When the rows all decode and
  their identifiers are all distinct, it returns a map and no error, and the map has one
  entry for each identifier and no other.
\<close>

theorem GetHandleMap_duplicate_or_distinct:
  "(handle_table (DB d) = Inr (map Decodes rows @ rest) \<longrightarrow> \<not> distinct (map fst rows) \<longrightarrow>
      (\<exists>seen i later. map fst rows = seen @ i # later \<and> distinct seen \<and> i \<in> set seen \<and>
         GetHandleMap d cm =
           (None, Some (Errorf (''multiple handles with the same ID: '' @ fmt_d i
              @ '' - handle ID uniqueness assumption violated - '' @ githubIssueMsg))))) \<and>
   (handle_table (DB d) = Inr (map Decodes rows @ Undecodable m # rest) \<longrightarrow>
    distinct (map fst rows) \<longrightarrow>
      GetHandleMap d cm = (None, Some (errors_Wrap (ErrScan m) ''read handle''))) \<and>
   (handle_table (DB d) = Inr (map Decodes rows) \<longrightarrow> distinct (map fst rows) \<longrightarrow>
      (\<exists>hm. GetHandleMap d cm = (Some hm, None) \<and> dom hm = fst ` set rows \<and>
         card (dom hm) = length rows))"
proof (intro conjI impI)
  assume table: "handle_table (DB d) = Inr (map Decodes rows @ rest)"
    and "\<not> distinct (map fst rows)"
  then obtain seen i later
    where dec: "i \<in> set seen" "distinct seen" "map fst rows = seen @ i # later"
    unfolding not_distinct_conv_prefix by blast
  have "GetHandleMap_loop cm (open_rows (map Decodes rows @ rest)) Map.empty
      = (None, Some (duplicate_handle_error i))"
    by (rule GetHandleMap_loop_duplicate [where xs = rows and seen = seen and later = later])
       (use dec in \<open>simp_all add: open_rows_def\<close>)
  then have "GetHandleMap d cm = (None, Some (duplicate_handle_error i))"
    using table by (simp add: GetHandleMap_rows)
  then show "\<exists>seen i later. map fst rows = seen @ i # later \<and> distinct seen \<and> i \<in> set seen \<and>
               GetHandleMap d cm =
                 (None, Some (Errorf (''multiple handles with the same ID: '' @ fmt_d i
                    @ '' - handle ID uniqueness assumption violated - '' @ githubIssueMsg)))"
    using dec unfolding duplicate_handle_error_def by blast
next
  assume table: "handle_table (DB d) = Inr (map Decodes rows @ Undecodable m # rest)"
    and dist: "distinct (map fst rows)"
  have "GetHandleMap_loop cm (open_rows (map Decodes rows @ Undecodable m # rest)) Map.empty
      = (None, Some (Wrap (ErrScan m) ''read handle''))"
    by (rule GetHandleMap_loop_read_error) (use dist in \<open>simp_all add: open_rows_def\<close>)
  then show "GetHandleMap d cm = (None, Some (errors_Wrap (ErrScan m) ''read handle''))"
    using table by (simp add: GetHandleMap_rows errors_Wrap_def)
next
  assume table: "handle_table (DB d) = Inr (map Decodes rows)"
    and dist: "distinct (map fst rows)"
  let ?m = "map_of (map (\<lambda>(i, a). (i, resolved_handle cm a)) rows)"
  have res: "GetHandleMap d cm = (Some ?m, None)"
    using table dist by (rule GetHandleMap_distinct)
  have dom: "dom ?m = fst ` set rows"
    by (force simp: dom_map_of_conv_image_fst image_iff split: prod.splits)
  have "card (fst ` set rows) = length rows"
    using dist by (metis distinct_card length_map set_map)
  with res dom show "\<exists>hm. GetHandleMap d cm = (Some hm, None) \<and> dom hm = fst ` set rows \<and>
               card (dom hm) = length rows"
    by simp
qed

theorem GetHandleMap_duplicate_or_distinct_witness:
  "handle_table (DB duplicate_then_undecodable_chatDB) =
     Inr (map Decodes duplicate_handles
            @ [Undecodable ''converting NULL to string is unsupported'']) \<and>
   \<not> distinct (map fst duplicate_handles) \<and>
   GetHandleMap duplicate_then_undecodable_chatDB example_contacts =
     (None, Some (Errorf ''multiple handles with the same ID: 1 - handle ID uniqueness assumption violated - open an issue at https://github.com/tagatac/bagoup/issues'')) \<and>
   handle_table (DB undecodable_handle_chatDB) =
     Inr (map Decodes [(1, ''+15551234567'')]
            @ Undecodable ''converting NULL to string is unsupported''
              # [Decodes (1, ''dave@example.com'')]) \<and>
   distinct (map fst [(1 :: int, ''+15551234567'')]) \<and>
   GetHandleMap undecodable_handle_chatDB example_contacts =
     (None, Some (Wrap (ErrScan ''converting NULL to string is unsupported'') ''read handle'')) \<and>
   handle_table (DB example_chatDB) = Inr (map Decodes example_handles) \<and>
   distinct (map fst example_handles) \<and>
   (\<exists>hm. GetHandleMap example_chatDB example_contacts = (Some hm, None) \<and>
      dom hm = {1, 2, 5} \<and> card (dom hm) = 3)"
proof -
  let ?m = "''converting NULL to string is unsupported''"
  have h: "handle_table (DB duplicate_then_undecodable_chatDB) =
      Inr (map Decodes duplicate_handles @ [Undecodable ?m])"
    by (simp add: duplicate_then_undecodable_chatDB_def NewChatDB_def)
  have nd: "\<not> distinct (map fst duplicate_handles)"
    by (simp add: duplicate_handles_def example_handles_def)
  from GetHandleMap_duplicate_or_distinct
         [where d = duplicate_then_undecodable_chatDB and rows = duplicate_handles
            and rest = "[Undecodable ?m]" and cm = example_contacts] h nd
  obtain seen i later
    where dec: "map fst duplicate_handles = seen @ i # later" "distinct seen" "i \<in> set seen"
      and res: "GetHandleMap duplicate_then_undecodable_chatDB example_contacts =
                 (None, Some (Errorf (''multiple handles with the same ID: '' @ fmt_d i
                    @ '' - handle ID uniqueness assumption violated - '' @ githubIssueMsg)))"
    by blast
  have "i = 1" using dec
    by (auto simp: duplicate_handles_def example_handles_def Cons_eq_append_conv
          append_eq_Cons_conv)
  with res have dup: "GetHandleMap duplicate_then_undecodable_chatDB example_contacts =
     (None, Some (Errorf ''multiple handles with the same ID: 1 - handle ID uniqueness assumption violated - open an issue at https://github.com/tagatac/bagoup/issues''))"
    by (simp add: fmt_d_def string_of_nat.simps digit_char_def githubIssueMsg_def)
  have hu: "handle_table (DB undecodable_handle_chatDB) =
      Inr (map Decodes [(1, ''+15551234567'')]
             @ Undecodable ?m # [Decodes (1, ''dave@example.com'')])"
    by (simp add: undecodable_handle_chatDB_def NewChatDB_def undecodable_handle_rows_def)
  have du: "distinct (map fst [(1 :: int, ''+15551234567'')])"
    by simp
  from GetHandleMap_duplicate_or_distinct
         [where d = undecodable_handle_chatDB and rows = "[(1, ''+15551234567'')]"
            and m = ?m and rest = "[Decodes (1, ''dave@example.com'')]"
            and cm = example_contacts] hu du
  have "GetHandleMap undecodable_handle_chatDB example_contacts =
      (None, Some (errors_Wrap (ErrScan ?m) ''read handle''))"
    by blast
  then have read: "GetHandleMap undecodable_handle_chatDB example_contacts =
      (None, Some (Wrap (ErrScan ?m) ''read handle''))"
    by (simp add: errors_Wrap_def)
  have h': "handle_table (DB example_chatDB) = Inr (map Decodes example_handles)"
    by (simp add: example_chatDB_def NewChatDB_def example_db_def)
  have d: "distinct (map fst example_handles)"
    by (simp add: example_handles_def)
  from GetHandleMap_duplicate_or_distinct
         [where d = example_chatDB and rows = example_handles and cm = example_contacts] h' d
  have "\<exists>hm. GetHandleMap example_chatDB example_contacts = (Some hm, None) \<and>
          dom hm = fst ` set example_handles \<and> card (dom hm) = length example_handles"
    by blast
  then have ok: "\<exists>hm. GetHandleMap example_chatDB example_contacts = (Some hm, None) \<and>
      dom hm = {1, 2, 5} \<and> card (dom hm) = 3"
    by (simp add: example_handles_def eval_nat_numeral)
  from h nd dup hu du read h' d ok show ?thesis by blast
qed

text \<open>
  Two rows with the identifier 1 and, between them, a row that does not decode: the
  result is the read error of the second row, not the error for a repeated identifier.
\<close>

theorem GetHandleMap_duplicate_counterexample:
  "handle_table (DB undecodable_handle_chatDB) =
     Inr [Decodes (1, ''+15551234567''),
          Undecodable ''converting NULL to string is unsupported'',
          Decodes (1, ''dave@example.com'')] \<and>
   GetHandleMap undecodable_handle_chatDB example_contacts =
     (None, Some (Wrap (ErrScan ''converting NULL to string is unsupported'') ''read handle'')) \<and>
   GetHandleMap undecodable_handle_chatDB example_contacts \<noteq>
     (None, Some (Errorf ''multiple handles with the same ID: 1 - handle ID uniqueness assumption violated - open an issue at https://github.com/tagatac/bagoup/issues''))"
proof -
  have table: "handle_table (DB undecodable_handle_chatDB) =
     Inr [Decodes (1, ''+15551234567''),
          Undecodable ''converting NULL to string is unsupported'',
          Decodes (1, ''dave@example.com'')]"
    by (simp add: undecodable_handle_chatDB_def NewChatDB_def undecodable_handle_rows_def)
  have res: "GetHandleMap undecodable_handle_chatDB example_contacts =
     (None, Some (Wrap (ErrScan ''converting NULL to string is unsupported'') ''read handle''))"
    by (simp add: GetHandleMap_rows [OF table] open_rows_def GetHandleMap_loop_Decodes
          GetHandleMap_loop_Undecodable)
  from table res show ?thesis by simp
qed

text \<open>
  Claim C7. When the handle query gives rows with distinct identifiers,
  \<^verbatim>\<open>GetHandleMap\<close> returns a map, and for every row the value of the map at the
  identifier of the row is the given name of the Contact Entry for the address of the
  row, when there is an entry and its given name is not empty, and the address itself
  otherwise.
\<close>

theorem GetHandleMap_value:
  assumes "handle_table (DB d) = Inr (map Decodes rows)"
    and "distinct (map fst rows)"
  shows "\<exists>m. GetHandleMap d cm = (Some m, None) \<and>
           (\<forall>(handleID, address) \<in> set rows.
              m handleID =
                Some (case contact_given_name cm address of
                        Some given \<Rightarrow> given
                      | None \<Rightarrow> address))"
proof -
  let ?m = "map_of (map (\<lambda>(i, a). (i, resolved_handle cm a)) rows)"
  have res: "GetHandleMap d cm = (Some ?m, None)"
    using assms by (rule GetHandleMap_distinct)
  have "?m i = Some (resolved_handle cm a)" if "(i, a) \<in> set rows" for i a
  proof (rule map_of_is_SomeI)
    show "distinct (map fst (map (\<lambda>(i, a). (i, resolved_handle cm a)) rows))"
      using assms(2) by (simp add: comp_def case_prod_unfold)
    show "(i, resolved_handle cm a) \<in> set (map (\<lambda>(i, a). (i, resolved_handle cm a)) rows)"
      using that by force
  qed
  then show ?thesis using res
    by (auto simp: resolved_handle_def split: option.splits)
qed

theorem GetHandleMap_value_witness:
  "handle_table (DB example_chatDB) = Inr (map Decodes example_handles) \<and>
   distinct (map fst example_handles) \<and>
   (\<exists>m. GetHandleMap example_chatDB example_contacts = (Some m, None) \<and>
      m 1 = Some ''Alice'' \<and> m 2 = Some ''bob@example.com'' \<and>
      m 5 = Some ''carol@example.com'')"
proof -
  have h: "handle_table (DB example_chatDB) = Inr (map Decodes example_handles)"
    by (simp add: example_chatDB_def NewChatDB_def example_db_def)
  have d: "distinct (map fst example_handles)"
    by (simp add: example_handles_def)
  from GetHandleMap_value [OF h d, of example_contacts]
  have "\<exists>m. GetHandleMap example_chatDB example_contacts = (Some m, None) \<and>
      m 1 = Some ''Alice'' \<and> m 2 = Some ''bob@example.com'' \<and>
      m 5 = Some ''carol@example.com''"
    by (simp add: example_handles_def example_contacts_def contact_given_name_def)
  with h d show ?thesis by blast
qed

subsection \<open>GetChats\<close>

lemma GetChats_loop_Nil:
  "\<not> closed rs \<Longrightarrow> pending rs = [] \<Longrightarrow> GetChats_loop cm rs chats = (Some chats, None)"
  by (subst GetChats_loop.simps) (simp add: Next_Nil)

lemma GetChats_loop_Decodes:
  "\<not> closed rs \<Longrightarrow> pending rs = Decodes r # rest \<Longrightarrow>
   GetChats_loop cm rs chats =
     GetChats_loop cm (rs\<lparr>pending := rest, current := Some (Decodes r)\<rparr>)
       (chats @ [chat_of_row cm r])"
  by (subst GetChats_loop.simps)
     (simp add: Next_Cons Scan_Decodes chat_of_row_def resolved_display_name_def Let_def
        split: prod.splits option.splits)

lemma GetChats_loop_decodes:
  "\<not> closed rs \<Longrightarrow> pending rs = map Decodes xs \<Longrightarrow>
   GetChats_loop cm rs chats = (Some (chats @ map (chat_of_row cm) xs), None)"
proof (induction xs arbitrary: rs chats)
  case Nil
  then show ?case by (simp add: GetChats_loop_Nil)
next
  case (Cons x xs)
  let ?rs = "rs\<lparr>pending := map Decodes xs, current := Some (Decodes x)\<rparr>"
  have step: "GetChats_loop cm rs chats = GetChats_loop cm ?rs (chats @ [chat_of_row cm x])"
    using Cons.prems by (simp add: GetChats_loop_Decodes)
  have "GetChats_loop cm ?rs (chats @ [chat_of_row cm x])
      = (Some ((chats @ [chat_of_row cm x]) @ map (chat_of_row cm) xs), None)"
    by (rule Cons.IH) (use Cons.prems(1) in simp_all)
  then show ?case by (simp add: step)
qed

text \<open>
  Claim C4. When the chat query gives rows, \<^verbatim>\<open>GetChats\<close> returns one \<^verbatim>\<open>Chat\<close> for
  each row, in the order of the rows, and its display name is resolved in this order:
  the display-name field of the row if it is not empty, else its conversation
  identifier; then, if the contact map has an entry for that name and the preferred
  formatted name of the entry is not empty, the formatted name in its place.
\<close>

theorem GetChats_display_name:
  assumes "chat_table (DB d) = Inr (map Decodes rows)"
  shows "GetChats d cm =
           (Some (map (\<lambda>(i, guid, identifier, displayName).
                    \<lparr>ID = i, GUID = guid,
                     DisplayName = resolved_display_name cm displayName identifier\<rparr>) rows),
            None)"
proof -
  have "GetChats d cm = GetChats_loop cm (open_rows (map Decodes rows)) []"
    using assms by (simp add: GetChats_def Query_def)
  also have "\<dots> = (Some ([] @ map (chat_of_row cm) rows), None)"
    by (rule GetChats_loop_decodes) (simp_all add: open_rows_def)
  also have "map (chat_of_row cm) rows =
      map (\<lambda>(i, guid, identifier, displayName).
             \<lparr>ID = i, GUID = guid,
              DisplayName = resolved_display_name cm displayName identifier\<rparr>) rows"
    by (simp add: chat_of_row_def fun_eq_iff)
  finally show ?thesis by simp
qed

theorem GetChats_display_name_witness:
  "chat_table (DB example_chatDB) = Inr (map Decodes example_chats) \<and>
   GetChats example_chatDB example_contacts =
     (Some [\<lparr>ID = 1, GUID = ''guid1'', DisplayName = ''chat123''\<rparr>,
            \<lparr>ID = 2, GUID = ''guid2'', DisplayName = ''The Smiths''\<rparr>,
            \<lparr>ID = 3, GUID = ''guid3'', DisplayName = ''carol@example.com''\<rparr>,
            \<lparr>ID = 4, GUID = ''guid4'', DisplayName = ''The Smiths''\<rparr>], None)"
proof -
  have h: "chat_table (DB example_chatDB) = Inr (map Decodes example_chats)"
    by (simp add: example_chatDB_def NewChatDB_def example_db_def)
  from GetChats_display_name [OF h, of example_contacts]
  have "GetChats example_chatDB example_contacts =
     (Some [\<lparr>ID = 1, GUID = ''guid1'', DisplayName = ''chat123''\<rparr>,
            \<lparr>ID = 2, GUID = ''guid2'', DisplayName = ''The Smiths''\<rparr>,
            \<lparr>ID = 3, GUID = ''guid3'', DisplayName = ''carol@example.com''\<rparr>,
            \<lparr>ID = 4, GUID = ''guid4'', DisplayName = ''The Smiths''\<rparr>], None)"
    by (simp add: example_chats_def example_contacts_def resolved_display_name_def)
  with h show ?thesis by blast
qed

subsection \<open>GetMessageIDs\<close>

lemma GetMessageIDs_loop_Nil:
  "\<not> closed rs \<Longrightarrow> pending rs = [] \<Longrightarrow> GetMessageIDs_loop c rs ids = (Some ids, None)"
  by (subst GetMessageIDs_loop.simps) (simp add: Next_Nil)

lemma GetMessageIDs_loop_Decodes:
  "\<not> closed rs \<Longrightarrow> pending rs = Decodes m # rest \<Longrightarrow>
   GetMessageIDs_loop c rs ids =
     GetMessageIDs_loop c (rs\<lparr>pending := rest, current := Some (Decodes m)\<rparr>) (ids @ [m])"
  by (subst GetMessageIDs_loop.simps) (simp add: Next_Cons Scan_Decodes)

lemma GetMessageIDs_loop_decodes:
  "\<not> closed rs \<Longrightarrow> pending rs = map Decodes xs \<Longrightarrow>
   GetMessageIDs_loop c rs ids = (Some (ids @ xs), None)"
proof (induction xs arbitrary: rs ids)
  case Nil
  then show ?case by (simp add: GetMessageIDs_loop_Nil)
next
  case (Cons x xs)
  let ?rs = "rs\<lparr>pending := map Decodes xs, current := Some (Decodes x)\<rparr>"
  have step: "GetMessageIDs_loop c rs ids = GetMessageIDs_loop c ?rs (ids @ [x])"
    using Cons.prems by (simp add: GetMessageIDs_loop_Decodes)
  have "GetMessageIDs_loop c ?rs (ids @ [x]) = (Some ((ids @ [x]) @ xs), None)"
    by (rule Cons.IH) (use Cons.prems(1) in simp_all)
  then show ?case by (simp add: step)
qed

text \<open>
  Claim C8. When the join table has no row for a chat identifier, \<^verbatim>\<open>GetMessageIDs\<close>
  returns the empty sequence (not \<^verbatim>\<open>nil\<close>) and no error. And when the join table
  gives rows for a chat, it returns their message identifiers in the order of the rows,
  one for each row.
\<close>

theorem GetMessageIDs_empty_and_order:
  "(chat_message_join_table (DB d) chatID = Inr [] \<longrightarrow>
      GetMessageIDs d chatID = (Some [], None)) \<and>
   (\<forall>messageIDs. chat_message_join_table (DB d) chatID = Inr (map Decodes messageIDs) \<longrightarrow>
      GetMessageIDs d chatID = (Some messageIDs, None))"
proof -
  have "GetMessageIDs d chatID = (Some messageIDs, None)"
    if "chat_message_join_table (DB d) chatID = Inr (map Decodes messageIDs)" for messageIDs
  proof -
    have "GetMessageIDs d chatID
        = GetMessageIDs_loop chatID (open_rows (map Decodes messageIDs)) []"
      using that by (simp add: GetMessageIDs_def Query_def)
    also have "\<dots> = (Some ([] @ messageIDs), None)"
      by (rule GetMessageIDs_loop_decodes) (simp_all add: open_rows_def)
    finally show ?thesis by simp
  qed
  from this [of "[]"] this show ?thesis by simp
qed

theorem GetMessageIDs_empty_and_order_witness:
  "chat_message_join_table (DB example_chatDB) 2 = Inr [] \<and>
   GetMessageIDs example_chatDB 2 = (Some [], None) \<and>
   chat_message_join_table (DB example_chatDB) 1 = Inr (map Decodes [30, 10, 20]) \<and>
   GetMessageIDs example_chatDB 1 = (Some [30, 10, 20], None)"
proof -
  have h2: "chat_message_join_table (DB example_chatDB) 2 = Inr []"
    by (simp add: example_chatDB_def NewChatDB_def example_db_def)
  have h1: "chat_message_join_table (DB example_chatDB) 1 = Inr (map Decodes [30, 10, 20])"
    by (simp add: example_chatDB_def NewChatDB_def example_db_def)
  from GetMessageIDs_empty_and_order [of example_chatDB 2] h2
  have r2: "GetMessageIDs example_chatDB 2 = (Some [], None)" by blast
  from GetMessageIDs_empty_and_order [of example_chatDB 1] h1
  have r1: "GetMessageIDs example_chatDB 1 = (Some [30, 10, 20], None)" by blast
  from h2 r2 h1 r1 show ?thesis by blast
qed

subsection \<open>GetMessage\<close>

text \<open>What \<^verbatim>\<open>GetMessage\<close> does with the rows of a query that succeeds.\<close>

lemma GetMessage_rows:
  "message_table (DB d) (getDatetimeFormula cp d v) messageID = Inr rows \<Longrightarrow>
   GetMessage cp d messageID hm v =
     (case Scan (snd (Next (open_rows rows))) of
        Inl err \<Rightarrow> ('''', Some (errors_Wrapf err ''read data for message ID '' messageID))
      | Inr (fromMe, handleID, text, date) \<Rightarrow>
          if fst (Next (snd (Next (open_rows rows)))) then
            ('''', Some (Errorf (''multiple messages with the same ID: '' @ fmt_d messageID
               @ '' - message ID uniqeness assumption violated - '' @ githubIssueMsg)))
          else
            (''['' @ date @ ''] ''
               @ (if fromMe = 1 then selfHandle d
                  else case hm handleID of None \<Rightarrow> '''' | Some h \<Rightarrow> h)
               @ '': '' @ text @ [CHR 0x0A], None))"
  by (simp add: GetMessage_def Query_def Let_def split: sum.splits prod.splits)

lemma Scan_after_Next_Nil: "Scan (snd (Next (open_rows []))) = Inl ErrRowsClosed"
  by (simp add: open_rows_def Next_def Scan_def)

lemma Scan_after_Next_Cons:
  "Scan (snd (Next (open_rows (r # rest)))) =
     (case r of Decodes v \<Rightarrow> Inr v | Undecodable m \<Rightarrow> Inl (ErrScan m))"
  by (simp add: open_rows_def Next_def Scan_def split: row.splits)

lemma second_Next: "fst (Next (snd (Next (open_rows (r # rest))))) = (rest \<noteq> [])"
  by (cases rest) (simp_all add: open_rows_def Next_def)

text \<open>
  Claim C1, as the code has it. When the message query gives no row for the identifier,
  the first \<^verbatim>\<open>Next\<close> closes the cursor, \<^verbatim>\<open>Scan\<close> fails on it, and
  \<^verbatim>\<open>GetMessage\<close> returns the empty string with the error of its failed \<^verbatim>\<open>Scan\<close>:
  the message \<^verbatim>\<open>read data for message ID\<close> and the identifier, around the cause
  \<^verbatim>\<open>sql: Rows are closed\<close>. The package has no error of its own for a missing message.
\<close>

theorem GetMessage_zero_rows:
  assumes "message_table (DB d) (getDatetimeFormula cp d v) messageID = Inr []"
  shows "GetMessage cp d messageID hm v =
           ('''', Some (Wrap ErrRowsClosed (''read data for message ID '' @ fmt_d messageID)))"
proof -
  have "GetMessage cp d messageID hm v =
      ('''', Some (errors_Wrapf ErrRowsClosed ''read data for message ID '' messageID))"
    using assms by (simp add: GetMessage_rows Scan_after_Next_Nil)
  then show ?thesis by (simp add: errors_Wrapf_def)
qed

theorem GetMessage_zero_rows_witness:
  "message_table (DB example_chatDB) (getDatetimeFormula no_prerelease example_chatDB None) 99
     = Inr [] \<and>
   GetMessage no_prerelease example_chatDB 99 Map.empty None =
     ('''', Some (Wrap ErrRowsClosed ''read data for message ID 99''))"
proof -
  have h: "message_table (DB example_chatDB)
             (getDatetimeFormula no_prerelease example_chatDB None) 99 = Inr []"
    by (simp add: example_chatDB_def NewChatDB_def example_db_def)
  from GetMessage_zero_rows [OF h, of Map.empty]
  have "GetMessage no_prerelease example_chatDB 99 Map.empty None =
     ('''', Some (Wrap ErrRowsClosed ''read data for message ID 99''))"
    by (simp add: fmt_d_def string_of_nat.simps digit_char_def)
  with h show ?thesis by blast
qed

text \<open>
  The error for no row is the error for a row that does not decode, with another cause:
  for the identifier 43, a message table with no row and a message table whose one row
  for 43 has a \<^verbatim>\<open>NULL\<close> handle identifier give the same message around their causes.
  So a missing message is not told apart from a failed read by the kind of the error.
\<close>

theorem GetMessage_zero_rows_counterexample:
  "GetMessage no_prerelease no_messages_chatDB 43 Map.empty None =
     ('''', Some (errors_Wrapf ErrRowsClosed ''read data for message ID '' 43)) \<and>
   GetMessage no_prerelease example_chatDB 43 Map.empty None =
     ('''', Some (errors_Wrapf (ErrScan ''converting NULL to int is unsupported'')
                   ''read data for message ID '' 43)) \<and>
   errors_Wrapf ErrRowsClosed ''read data for message ID '' 43 =
     Wrap ErrRowsClosed ''read data for message ID 43'' \<and>
   errors_Wrapf (ErrScan ''converting NULL to int is unsupported'')
       ''read data for message ID '' 43 =
     Wrap (ErrScan ''converting NULL to int is unsupported'') ''read data for message ID 43''"
proof -
  have none: "message_table (DB no_messages_chatDB)
                (getDatetimeFormula no_prerelease no_messages_chatDB None) 43 = Inr []"
    by (simp add: no_messages_chatDB_def NewChatDB_def)
  have one: "message_table (DB example_chatDB)
               (getDatetimeFormula no_prerelease example_chatDB None) 43
               = Inr [Undecodable ''converting NULL to int is unsupported'']"
    by (simp add: example_chatDB_def NewChatDB_def example_db_def)
  have a: "GetMessage no_prerelease no_messages_chatDB 43 Map.empty None =
     ('''', Some (errors_Wrapf ErrRowsClosed ''read data for message ID '' 43))"
    by (simp add: GetMessage_rows [OF none] Scan_after_Next_Nil)
  have b: "GetMessage no_prerelease example_chatDB 43 Map.empty None =
     ('''', Some (errors_Wrapf (ErrScan ''converting NULL to int is unsupported'')
                   ''read data for message ID '' 43))"
    by (simp add: GetMessage_rows [OF one] Scan_after_Next_Cons)
  have c: "errors_Wrapf e ''read data for message ID '' 43 =
      Wrap e ''read data for message ID 43''" for e
    by (simp add: errors_Wrapf_def fmt_d_def string_of_nat.simps digit_char_def)
  from a b c show ?thesis by blast
qed

text \<open>
  Claim C6, as the code has it. \<^verbatim>\<open>GetMessage\<close> reads the first row before it asks
  for a second. When the message query gives more than one row for the identifier, it
  returns the empty string and an error: if the first row decodes, the error that names
  the identifier as one that several messages have, whatever the later rows are; if the
  first row does not decode, the read error of that row.
\<close>

theorem GetMessage_multiple_rows:
  assumes "message_table (DB d) (getDatetimeFormula cp d v) messageID = Inr (r # r' # rest)"
  shows "GetMessage cp d messageID hm v =
           (case r of
              Decodes vals \<Rightarrow>
                ('''', Some (Errorf (''multiple messages with the same ID: '' @ fmt_d messageID
                   @ '' - message ID uniqeness assumption violated - '' @ githubIssueMsg)))
            | Undecodable m \<Rightarrow>
                ('''', Some (errors_Wrapf (ErrScan m) ''read data for message ID '' messageID)))"
proof (cases r)
  case (Decodes vals)
  then show ?thesis using assms
    by (simp add: GetMessage_rows Scan_after_Next_Cons second_Next split: prod.splits)
next
  case (Undecodable m)
  then show ?thesis using assms
    by (simp add: GetMessage_rows Scan_after_Next_Cons)
qed

theorem GetMessage_multiple_rows_witness:
  "message_table (DB example_chatDB) (getDatetimeFormula no_prerelease example_chatDB None) 42
     = Inr (Decodes (0, 1, ''a'', ''2020-01-02 00:00:00'')
            # Undecodable ''converting NULL to int is unsupported'' # []) \<and>
   GetMessage no_prerelease example_chatDB 42 Map.empty None =
     ('''', Some (Errorf ''multiple messages with the same ID: 42 - message ID uniqeness assumption violated - open an issue at https://github.com/tagatac/bagoup/issues'')) \<and>
   message_table (DB undecodable_first_chatDB)
       (getDatetimeFormula no_prerelease undecodable_first_chatDB None) 44
     = Inr (Undecodable ''converting NULL to int is unsupported''
            # Decodes (0, 1, ''b'', ''2020-01-02 00:00:00'') # []) \<and>
   GetMessage no_prerelease undecodable_first_chatDB 44 Map.empty None =
     ('''', Some (Wrap (ErrScan ''converting NULL to int is unsupported'')
                   ''read data for message ID 44''))"
proof -
  have h: "message_table (DB example_chatDB)
             (getDatetimeFormula no_prerelease example_chatDB None) 42
     = Inr (Decodes (0, 1, ''a'', ''2020-01-02 00:00:00'')
            # Undecodable ''converting NULL to int is unsupported'' # [])"
    by (simp add: example_chatDB_def NewChatDB_def example_db_def)
  from GetMessage_multiple_rows [OF h, of Map.empty]
  have dup: "GetMessage no_prerelease example_chatDB 42 Map.empty None =
     ('''', Some (Errorf ''multiple messages with the same ID: 42 - message ID uniqeness assumption violated - open an issue at https://github.com/tagatac/bagoup/issues''))"
    by (simp add: fmt_d_def string_of_nat.simps digit_char_def githubIssueMsg_def)
  have hu: "message_table (DB undecodable_first_chatDB)
       (getDatetimeFormula no_prerelease undecodable_first_chatDB None) 44
     = Inr (Undecodable ''converting NULL to int is unsupported''
            # Decodes (0, 1, ''b'', ''2020-01-02 00:00:00'') # [])"
    by (simp add: undecodable_first_chatDB_def NewChatDB_def undecodable_first_rows_def)
  from GetMessage_multiple_rows [OF hu, of Map.empty]
  have read: "GetMessage no_prerelease undecodable_first_chatDB 44 Map.empty None =
     ('''', Some (Wrap (ErrScan ''converting NULL to int is unsupported'')
                   ''read data for message ID 44''))"
    by (simp add: errors_Wrapf_def fmt_d_def string_of_nat.simps digit_char_def)
  from h dup hu read show ?thesis by blast
qed

text \<open>
  Two rows for the identifier 44, of which the first does not decode: the result is the
  read error of the first row, not the error for several messages.
\<close>

theorem GetMessage_multiple_rows_counterexample:
  "message_table (DB undecodable_first_chatDB)
       (getDatetimeFormula no_prerelease undecodable_first_chatDB None) 44 =
     Inr [Undecodable ''converting NULL to int is unsupported'',
          Decodes (0, 1, ''b'', ''2020-01-02 00:00:00'')] \<and>
   GetMessage no_prerelease undecodable_first_chatDB 44 Map.empty None =
     ('''', Some (Wrap (ErrScan ''converting NULL to int is unsupported'')
                   ''read data for message ID 44'')) \<and>
   GetMessage no_prerelease undecodable_first_chatDB 44 Map.empty None \<noteq>
     ('''', Some (Errorf ''multiple messages with the same ID: 44 - message ID uniqeness assumption violated - open an issue at https://github.com/tagatac/bagoup/issues''))"
proof -
  have table: "message_table (DB undecodable_first_chatDB)
       (getDatetimeFormula no_prerelease undecodable_first_chatDB None) 44 =
     Inr [Undecodable ''converting NULL to int is unsupported'',
          Decodes (0, 1, ''b'', ''2020-01-02 00:00:00'')]"
    by (simp add: undecodable_first_chatDB_def NewChatDB_def undecodable_first_rows_def)
  have res: "GetMessage no_prerelease undecodable_first_chatDB 44 Map.empty None =
     ('''', Some (Wrap (ErrScan ''converting NULL to int is unsupported'')
                   ''read data for message ID 44''))"
    by (simp add: GetMessage_rows [OF table] Scan_after_Next_Cons errors_Wrapf_def fmt_d_def
          string_of_nat.simps digit_char_def)
  from table res show ?thesis by simp
qed

text \<open>
  Claim C5. When the message query gives one row and it decodes, \<^verbatim>\<open>GetMessage\<close>
  returns the line \<^verbatim>\<open>[date] speaker: text\<close> and no error. The speaker is the
  self-label of the \<^verbatim>\<open>chatDB\<close> when the is-from-me flag of the row is 1, whatever the
  handle map holds; otherwise it is the value of the handle map at the handle
  identifier of the row, and the empty string when the map has no such key.
\<close>

theorem GetMessage_speaker:
  assumes "message_table (DB d) (getDatetimeFormula cp d v) messageID
             = Inr [Decodes (fromMe, handleID, text, date)]"
  shows "GetMessage cp d messageID hm v =
           (''['' @ date @ ''] ''
              @ (if fromMe = 1 then selfHandle d
                 else case hm handleID of Some label \<Rightarrow> label | None \<Rightarrow> '''')
              @ '': '' @ text @ [CHR 0x0A], None)"
proof (cases "hm handleID")
  case None
  then show ?thesis using assms
    by (simp add: GetMessage_rows Scan_after_Next_Cons second_Next)
next
  case (Some label)
  then show ?thesis using assms
    by (simp add: GetMessage_rows Scan_after_Next_Cons second_Next)
qed

theorem GetMessage_speaker_witness:
  "message_table (DB example_chatDB) (getDatetimeFormula no_prerelease example_chatDB None) 20
     = Inr [Decodes (1, 1, ''hi'', ''2020-01-01 10:01:00'')] \<and>
   GetMessage no_prerelease example_chatDB 20 [1 \<mapsto> ''Alice''] None =
     (''[2020-01-01 10:01:00] Me: hi'' @ [CHR 0x0A], None) \<and>
   message_table (DB example_chatDB) (getDatetimeFormula no_prerelease example_chatDB None) 10
     = Inr [Decodes (0, 1, ''hello'', ''2020-01-01 10:00:00'')] \<and>
   GetMessage no_prerelease example_chatDB 10 [1 \<mapsto> ''Alice''] None =
     (''[2020-01-01 10:00:00] Alice: hello'' @ [CHR 0x0A], None) \<and>
   message_table (DB example_chatDB) (getDatetimeFormula no_prerelease example_chatDB None) 30
     = Inr [Decodes (0, 7, ''who?'', ''2020-01-01 09:00:00'')] \<and>
   GetMessage no_prerelease example_chatDB 30 [1 \<mapsto> ''Alice''] None =
     (''[2020-01-01 09:00:00] : who?'' @ [CHR 0x0A], None)"
proof -
  have h20: "message_table (DB example_chatDB)
      (getDatetimeFormula no_prerelease example_chatDB None) 20
     = Inr [Decodes (1, 1, ''hi'', ''2020-01-01 10:01:00'')]"
    by (simp add: example_chatDB_def NewChatDB_def example_db_def)
  have h10: "message_table (DB example_chatDB)
      (getDatetimeFormula no_prerelease example_chatDB None) 10
     = Inr [Decodes (0, 1, ''hello'', ''2020-01-01 10:00:00'')]"
    by (simp add: example_chatDB_def NewChatDB_def example_db_def)
  have h30: "message_table (DB example_chatDB)
      (getDatetimeFormula no_prerelease example_chatDB None) 30
     = Inr [Decodes (0, 7, ''who?'', ''2020-01-01 09:00:00'')]"
    by (simp add: example_chatDB_def NewChatDB_def example_db_def)
  have self: "selfHandle example_chatDB = ''Me''"
    by (simp add: example_chatDB_def NewChatDB_def)
  from GetMessage_speaker [OF h20, of "[1 \<mapsto> ''Alice'']"]
  have r20: "GetMessage no_prerelease example_chatDB 20 [1 \<mapsto> ''Alice''] None =
     (''[2020-01-01 10:01:00] Me: hi'' @ [CHR 0x0A], None)"
    by (simp add: self)
  from GetMessage_speaker [OF h10, of "[1 \<mapsto> ''Alice'']"]
  have r10: "GetMessage no_prerelease example_chatDB 10 [1 \<mapsto> ''Alice''] None =
     (''[2020-01-01 10:00:00] Alice: hello'' @ [CHR 0x0A], None)"
    by simp
  from GetMessage_speaker [OF h30, of "[1 \<mapsto> ''Alice'']"]
  have r30: "GetMessage no_prerelease example_chatDB 30 [1 \<mapsto> ''Alice''] None =
     (''[2020-01-01 09:00:00] : who?'' @ [CHR 0x0A], None)"
    by simp
  from h20 r20 h10 r10 h30 r30 show ?thesis by blast
qed

subsection \<open>Calls on a chatDB\<close>

lemma exec_same: "snd (exec cp d c) = d"
  by (cases c) simp_all

lemma exec_all_same: "snd (exec_all cp d cs) = d"
  by (induction cs arbitrary: d) (simp_all add: case_prod_unfold exec_same)

text \<open>
  Claim C9. \<^verbatim>\<open>GetHandleMap\<close> is determined by the rows of the handle table and the
  contact map: two \<^verbatim>\<open>chatDB\<close>s whose stores answer the handle query alike give the
  same result for the same contact map; and a second call, after any calls of the
  interface on the same \<^verbatim>\<open>chatDB\<close>, returns what the first call returned.
\<close>

theorem GetHandleMap_deterministic:
  "(handle_table (DB d') = handle_table (DB d) \<longrightarrow> GetHandleMap d' cm = GetHandleMap d cm) \<and>
   fst (exec cp (snd (exec_all cp (snd (exec cp d (CallGetHandleMap cm))) calls))
          (CallGetHandleMap cm))
     = fst (exec cp d (CallGetHandleMap cm))"
proof
  show "handle_table (DB d') = handle_table (DB d) \<longrightarrow> GetHandleMap d' cm = GetHandleMap d cm"
    by (simp add: GetHandleMap_def)
  show "fst (exec cp (snd (exec_all cp (snd (exec cp d (CallGetHandleMap cm))) calls))
          (CallGetHandleMap cm))
     = fst (exec cp d (CallGetHandleMap cm))"
    by (simp only: exec_all_same exec_same)
qed

theorem GetHandleMap_deterministic_witness:
  "handle_table (DB no_messages_chatDB) = handle_table (DB example_chatDB) \<and>
   GetHandleMap no_messages_chatDB example_contacts = GetHandleMap example_chatDB example_contacts \<and>
   fst (exec no_prerelease
          (snd (exec_all no_prerelease
                  (snd (exec no_prerelease example_chatDB (CallGetHandleMap example_contacts)))
                  [CallGetChats example_contacts, CallGetMessageIDs 1,
                   CallGetMessage 10 Map.empty None]))
          (CallGetHandleMap example_contacts))
     = fst (exec no_prerelease example_chatDB (CallGetHandleMap example_contacts))"
proof -
  have h: "handle_table (DB no_messages_chatDB) = handle_table (DB example_chatDB)"
    by (simp add: no_messages_chatDB_def example_chatDB_def NewChatDB_def)
  from GetHandleMap_deterministic [of no_messages_chatDB example_chatDB example_contacts
      no_prerelease "[CallGetChats example_contacts, CallGetMessageIDs 1,
                   CallGetMessage 10 Map.empty None]"] h
  show ?thesis by blast
qed

text \<open>
  Claim C10. A \<^verbatim>\<open>chatDB\<close> made by \<^verbatim>\<open>NewChatDB\<close> has an empty override formula, and
  it is still empty after any calls of the interface. So \<^verbatim>\<open>getDatetimeFormula\<close>, and
  with it the formula in the query of \<^verbatim>\<open>GetMessage\<close>, is then a function of the
  version alone: the legacy formula for a version below 10.13, the modern formula for
  any other version and for none. The override is never returned.
\<close>

theorem NewChatDB_formula_by_version:
  "datetimeFormula (NewChatDB db self) = '''' \<and>
   datetimeFormula (snd (exec_all cp (NewChatDB db self) calls)) = '''' \<and>
   getDatetimeFormula cp (snd (exec_all cp (NewChatDB db self) calls)) macOSVersion =
     (case macOSVersion of
        Some v \<Rightarrow> if below_modernVersion v then datetimeFormulaLegacy else datetimeFormula_modern
      | None \<Rightarrow> datetimeFormula_modern)"
proof -
  have new: "datetimeFormula (NewChatDB db self) = ''''"
    by (simp add: NewChatDB_def)
  have after: "snd (exec_all cp (NewChatDB db self) calls) = NewChatDB db self"
    by (rule exec_all_same)
  have "getDatetimeFormula cp (NewChatDB db self) macOSVersion =
     (case macOSVersion of
        Some v \<Rightarrow> if below_modernVersion v then datetimeFormulaLegacy else datetimeFormula_modern
      | None \<Rightarrow> datetimeFormula_modern)"
    by (cases macOSVersion) (simp_all add: getDatetimeFormula_def new LessThan_modernVersion)
  with new after show ?thesis by simp
qed

theorem NewChatDB_formula_by_version_witness:
  "datetimeFormula (NewChatDB example_db ''Me'') = '''' \<and>
   datetimeFormula (snd (exec_all no_prerelease (NewChatDB example_db ''Me'')
      [CallGetMessage 10 Map.empty (Some (version 10 12 0)), CallGetHandleMap example_contacts]))
     = '''' \<and>
   getDatetimeFormula no_prerelease (snd (exec_all no_prerelease (NewChatDB example_db ''Me'')
      [CallGetMessage 10 Map.empty (Some (version 10 12 0)), CallGetHandleMap example_contacts]))
      (Some (version 10 12 6)) = datetimeFormulaLegacy \<and>
   getDatetimeFormula no_prerelease (snd (exec_all no_prerelease (NewChatDB example_db ''Me'')
      [CallGetMessage 10 Map.empty (Some (version 10 12 0)), CallGetHandleMap example_contacts]))
      (Some (version 10 15 7)) = datetimeFormula_modern"
  using NewChatDB_formula_by_version [of example_db "''Me''" no_prerelease
      "[CallGetMessage 10 Map.empty (Some (version 10 12 0)), CallGetHandleMap example_contacts]"
      "Some (version 10 12 6)"]
    NewChatDB_formula_by_version [of example_db "''Me''" no_prerelease
      "[CallGetMessage 10 Map.empty (Some (version 10 12 0)), CallGetHandleMap example_contacts]"
      "Some (version 10 15 7)"]
  by (simp add: version_def below_modernVersion_def)

end
